theory Spec2Isabelle
  imports Complex_Main "HOL-Library.AList"
begin

section \<open>Python values, errors and containers\<close>

text \<open>
  The notebooks are straight-line Python over dictionaries and dense numpy arrays.
  Every exception the modelled statements can raise is a value of \<open>py_error\<close>; a
  statement that may raise returns \<open>py_error + 'a\<close>, with \<open>Inl\<close> for the exception.
\<close>

datatype py_error = KeyError | IndexError | TypeError | ValueError | AssertionError

definition bind :: "py_error + 'a \<Rightarrow> ('a \<Rightarrow> py_error + 'b) \<Rightarrow> py_error + 'b" where
  "bind m f = (case m of Inl e \<Rightarrow> Inl e | Inr x \<Rightarrow> f x)"

text \<open>
  A Python \<open>dict\<close> keeps insertion order: an association list. Reading a missing key
  raises \<open>KeyError\<close>; writing replaces the value in place or appends a new pair.
\<close>

type_synonym ('k, 'v) dict = "('k \<times> 'v) list"

definition dict_get :: "('k, 'v) dict \<Rightarrow> 'k \<Rightarrow> py_error + 'v" where
  "dict_get d k = (case map_of d k of None \<Rightarrow> Inl KeyError | Some v \<Rightarrow> Inr v)"

definition dict_set :: "('k, 'v) dict \<Rightarrow> 'k \<Rightarrow> 'v \<Rightarrow> ('k, 'v) dict" where
  "dict_set d k v = AList.update k v d"

text \<open>\<open>range(n)\<close> as the list of its values.\<close>

definition py_range :: "int \<Rightarrow> int list" where
  "py_range n = [0..n - 1]"

text \<open>
  numpy indexing along one axis of length \<open>n\<close>: an index in \<open>[0, n)\<close> is itself, one
  in \<open>[-n, 0)\<close> counts from the end, anything else raises \<open>IndexError\<close>.
\<close>

definition np_index :: "nat \<Rightarrow> int \<Rightarrow> py_error + nat" where
  "np_index n i =
     (if 0 \<le> i \<and> i < int n then Inr (nat i)
      else if - int n \<le> i \<and> i < 0 then Inr (nat (int n + i))
      else Inl IndexError)"

text \<open>Indexing a Python list: as for an array axis.\<close>

definition py_list_get :: "'a list \<Rightarrow> int \<Rightarrow> py_error + 'a" where
  "py_list_get xs i = bind (np_index (length xs) i) (\<lambda>i'. Inr (xs ! i'))"

text \<open>\<open>np.zeros\<close> for shapes of rank 1, 2 and 3; \<open>np.eye(n)\<close>.\<close>

definition np_zeros1 :: "nat \<Rightarrow> real list" where
  "np_zeros1 n = replicate n 0"

definition np_zeros2 :: "nat \<Rightarrow> nat \<Rightarrow> real list list" where
  "np_zeros2 m n = replicate m (np_zeros1 n)"

definition np_zeros3 :: "nat \<Rightarrow> nat \<Rightarrow> nat \<Rightarrow> real list list list" where
  "np_zeros3 l m n = replicate l (np_zeros2 m n)"

definition np_eye :: "nat \<Rightarrow> real list list" where
  "np_eye n = map (\<lambda>i. map (\<lambda>j. if i = j then 1 else 0) [0..<n]) [0..<n]"

text \<open>Item assignment \<open>a[i] = v\<close>, \<open>a[i, j] = v\<close> and \<open>a[i, j, k] = v\<close>.\<close>

definition np_set1 :: "real list \<Rightarrow> int \<Rightarrow> real \<Rightarrow> py_error + real list" where
  "np_set1 a i v = bind (np_index (length a) i) (\<lambda>i'. Inr (a[i' := v]))"

definition np_set2 :: "real list list \<Rightarrow> int \<Rightarrow> int \<Rightarrow> real \<Rightarrow> py_error + real list list" where
  "np_set2 a i j v =
     bind (np_index (length a) i) (\<lambda>i'.
     bind (np_set1 (a ! i') j v) (\<lambda>row. Inr (a[i' := row])))"

definition np_set3 ::
  "real list list list \<Rightarrow> int \<Rightarrow> int \<Rightarrow> int \<Rightarrow> real \<Rightarrow> py_error + real list list list" where
  "np_set3 a i j k v =
     bind (np_index (length a) i) (\<lambda>i'.
     bind (np_set2 (a ! i') j k v) (\<lambda>plane. Inr (a[i' := plane])))"

section \<open>The tutorial notebook: a 3x3 grid world\<close>

subsection \<open>State space\<close>

text \<open>
  \<^verbatim>\<open>state_mapping = {0: (0,0), 1: (1,0), 2: (2,0), 3: (0,1), 4: (1,1), 5:(2,1),
                   6: (0,2), 7:(1,2), 8:(2,2)}\<close>
\<close>

definition state_mapping :: "(int, int \<times> int) dict" where
  "state_mapping =
     [(0, (0, 0)), (1, (1, 0)), (2, (2, 0)), (3, (0, 1)), (4, (1, 1)), (5, (2, 1)),
      (6, (0, 2)), (7, (1, 2)), (8, (2, 2))]"

text \<open>
  \<^verbatim>\<open>grid = np.zeros((3,3))
for linear_index, xy_coordinates in state_mapping.items():
    x, y = xy_coordinates
    grid[y,x] = linear_index\<close>
\<close>

fun grid_loop :: "(int, int \<times> int) dict \<Rightarrow> real list list \<Rightarrow> py_error + real list list" where
  "grid_loop [] g = Inr g"
| "grid_loop ((linear_index, (x, y)) # items) g =
     bind (np_set2 g y x (of_int linear_index)) (grid_loop items)"

definition grid :: "py_error + real list list" where
  "grid = grid_loop state_mapping (np_zeros2 3 3)"

subsection \<open>Likelihood matrix\<close>

text \<open>
  \<^verbatim>\<open>A = np.eye(9)\<close>
  The notebook's one-letter names \<open>A\<close>, \<open>P\<close> and \<open>B\<close> are \<open>A_matrix\<close>, \<open>P_dict\<close> and
  \<open>B_matrix\<close> here.
\<close>

definition A_matrix :: "real list list" where
  "A_matrix = np_eye 9"

subsection \<open>Transition dictionary and transition array\<close>

text \<open>
  \<^verbatim>\<open>dim = 3
actions = {'UP':0, 'RIGHT':1, 'DOWN':2, 'LEFT':3, 'STAY':4}\<close>
\<close>

definition dim :: int where
  "dim = 3"

definition actions :: "(string, int) dict" where
  "actions = [(''UP'', 0), (''RIGHT'', 1), (''DOWN'', 2), (''LEFT'', 3), (''STAY'', 4)]"

text \<open>
  A value stored under \<open>P[state][action]\<close>: the placeholder \<open>[]\<close> the row is created
  with, or the integer next state that replaces it. \<open>int(v)\<close> raises \<open>TypeError\<close> on
  a list.
\<close>

datatype py_val = PyList | PyInt int

definition py_int :: "py_val \<Rightarrow> py_error + int" where
  "py_int v = (case v of PyList \<Rightarrow> Inl TypeError | PyInt n \<Rightarrow> Inr n)"

type_synonym p_dict = "(int, (int, py_val) dict) dict"

text \<open>\<open>P[state_index][actions[name]] = v\<close>\<close>

definition P_assign :: "p_dict \<Rightarrow> int \<Rightarrow> string \<Rightarrow> int \<Rightarrow> py_error + p_dict" where
  "P_assign P state_index name v =
     bind (dict_get P state_index) (\<lambda>row.
     bind (dict_get actions name) (\<lambda>a.
     Inr (dict_set P state_index (dict_set row a (PyInt v)))))"

text \<open>
  One pass of the loop body for the item \<open>(state_index, (x, y))\<close>:
  \<^verbatim>\<open>P[state_index] = {a : [] for a in range(len(actions))}
x, y = xy_coordinates
P[state_index][actions['UP']] = state_index if y == 0 else state_index - dim
P[state_index][actions["RIGHT"]] = state_index if x == (dim -1) else state_index+1
P[state_index][actions['DOWN']] = state_index if y == (dim -1) else state_index + dim
P[state_index][actions['LEFT']] = state_index if x == 0 else state_index -1
P[state_index][actions['STAY']] = state_index\<close>
\<close>

definition P_body :: "p_dict \<Rightarrow> int \<times> int \<times> int \<Rightarrow> py_error + p_dict" where
  "P_body P item =
     (case item of (state_index, (x, y)) \<Rightarrow>
        bind (Inr (dict_set P state_index
                (map (\<lambda>a. (a, PyList)) (py_range (int (length actions)))))) (\<lambda>P0.
        bind (P_assign P0 state_index ''UP''
                (if y = 0 then state_index else state_index - dim)) (\<lambda>P1.
        bind (P_assign P1 state_index ''RIGHT''
                (if x = dim - 1 then state_index else state_index + 1)) (\<lambda>P2.
        bind (P_assign P2 state_index ''DOWN''
                (if y = dim - 1 then state_index else state_index + dim)) (\<lambda>P3.
        bind (P_assign P3 state_index ''LEFT''
                (if x = 0 then state_index else state_index - 1)) (\<lambda>P4.
        P_assign P4 state_index ''STAY'' state_index))))))"

fun P_loop :: "(int, int \<times> int) dict \<Rightarrow> p_dict \<Rightarrow> py_error + p_dict" where
  "P_loop [] P = Inr P"
| "P_loop (item # items) P = bind (P_body P item) (P_loop items)"

definition P_dict :: "py_error + p_dict" where
  "P_dict = P_loop state_mapping []"

text \<open>
  \<^verbatim>\<open>num_states = 9
B = np.zeros([num_states, num_states, len(actions)])
for s in range(num_states):
    for a in range(len(actions)):
        ns = int(P[s][a])
        B[ns, s, a] = 1\<close>
\<close>

definition num_states :: nat where
  "num_states = 9"

text \<open>\<open>int(P[s][a])\<close>\<close>

definition P_lookup :: "p_dict \<Rightarrow> int \<Rightarrow> int \<Rightarrow> py_error + int" where
  "P_lookup P s a = bind (dict_get P s) (\<lambda>row. bind (dict_get row a) py_int)"

fun B_inner ::
  "p_dict \<Rightarrow> int \<Rightarrow> int list \<Rightarrow> real list list list \<Rightarrow> py_error + real list list list" where
  "B_inner P s [] B = Inr B"
| "B_inner P s (a # as) B =
     bind (P_lookup P s a) (\<lambda>ns.
     bind (np_set3 B ns s a 1) (B_inner P s as))"

fun B_outer ::
  "p_dict \<Rightarrow> int list \<Rightarrow> real list list list \<Rightarrow> py_error + real list list list" where
  "B_outer P [] B = Inr B"
| "B_outer P (s # ss) B =
     bind (B_inner P s (py_range (int (length actions))) B) (B_outer P ss)"

definition B_matrix :: "py_error + real list list list" where
  "B_matrix =
     bind P_dict (\<lambda>P.
       B_outer P (py_range (int num_states))
         (np_zeros3 num_states num_states (length actions)))"

subsection \<open>Reading matrices\<close>

text \<open>
  The slice \<open>B[:, :, a]\<close>, and the sums \<open>M.sum(axis=1)[i]\<close> of row \<open>i\<close> and
  \<open>M.sum(axis=0)[j]\<close> of column \<open>j\<close> of a matrix stored as its list of rows.
\<close>

definition B_slice :: "real list list list \<Rightarrow> nat \<Rightarrow> real list list" where
  "B_slice Bv a = map (map (\<lambda>cell. cell ! a)) Bv"

definition row_sum :: "real list list \<Rightarrow> nat \<Rightarrow> real" where
  "row_sum M i = sum_list (M ! i)"

definition col_sum :: "real list list \<Rightarrow> nat \<Rightarrow> real" where
  "col_sum M j = sum_list (map (\<lambda>row. row ! j) M)"

section \<open>The demo notebook: a likelihood table built from labels\<close>

subsection \<open>Labels and dimensions\<close>

text \<open>
  \<^verbatim>\<open>model_labels = {
    "observations": {"grass_observation": ["wet", "dry"],
                     "weather_observation": ["clear", "rainy", "cloudy"]},
    "states": {"did_it_rain": ["rained", "did_not_rain"],
               "was_sprinkler_on": ["on", "off"]}}\<close>
\<close>

record labels =
  observations :: "(string, string list) dict"
  states :: "(string, string list) dict"

definition model_labels :: labels where
  "model_labels =
     \<lparr>observations =
        [(''grass_observation'', [''wet'', ''dry'']),
         (''weather_observation'', [''clear'', ''rainy'', ''cloudy''])],
      states =
        [(''did_it_rain'', [''rained'', ''did_not_rain'']),
         (''was_sprinkler_on'', [''on'', ''off''])]\<rparr>"

text \<open>
  Modelled from the spec: \<open>pymdp.utils.get_model_dimensions_from_labels\<close> is called by
  the notebook but is not among the sources. The notebook unpacks its result as
  \<open>num_obs, _, n_states, n_factors\<close> and uses \<open>num_obs\<close> as one outcome count per
  modality; the model returns the outcome count of every modality, the number of
  modalities, the level count of every state factor and the number of factors.
\<close>

definition get_model_dimensions_from_labels :: "labels \<Rightarrow> nat list \<times> nat \<times> nat list \<times> nat" where
  "get_model_dimensions_from_labels ml =
     (map (\<lambda>kv. length (snd kv)) (observations ml), length (observations ml),
      map (\<lambda>kv. length (snd kv)) (states ml), length (states ml))"

text \<open>\<^verbatim>\<open>num_obs, _, n_states, n_factors = utils.get_model_dimensions_from_labels(model_labels)\<close>\<close>

definition num_obs :: "nat list" where
  "num_obs = (case get_model_dimensions_from_labels model_labels of (n_o, n_m, n_s, n_f) \<Rightarrow> n_o)"

definition n_states :: "nat list" where
  "n_states = (case get_model_dimensions_from_labels model_labels of (n_o, n_m, n_s, n_f) \<Rightarrow> n_s)"

definition n_factors :: nat where
  "n_factors = (case get_model_dimensions_from_labels model_labels of (n_o, n_m, n_s, n_f) \<Rightarrow> n_f)"

subsection \<open>The labelled table\<close>

text \<open>
  The stub is a pandas \<open>DataFrame\<close>: its rows are labelled by (modality, outcome)
  pairs, its columns by one level per state factor, and it holds one number per cell.
\<close>

record data_frame =
  index :: "(string \<times> string) list"
  columns :: "string list list"
  cells :: "real list list"

text \<open>
  Modelled from the spec: \<open>pymdp.utils.create_A_matrix_stub\<close> is not among the sources.
  The spec describes the table it lays out (rows are the enumerated observation outcomes,
  columns the enumerated hidden-state configurations) and the notebook calls the result
  the empty stub, to be filled out afterwards: every cell starts at \<open>0\<close>.
\<close>

definition create_A_matrix_stub :: "labels \<Rightarrow> data_frame" where
  "create_A_matrix_stub ml =
     (let rows = concat (map (\<lambda>kv. map (\<lambda>outcome. (fst kv, outcome)) (snd kv)) (observations ml));
          cols = product_lists (map snd (states ml))
      in \<lparr>index = rows, columns = cols, cells = np_zeros2 (length rows) (length cols)\<rparr>)"

text \<open>The positions of the entries of a list that satisfy a predicate, in order.\<close>

definition positions :: "('a \<Rightarrow> bool) \<Rightarrow> 'a list \<Rightarrow> nat list" where
  "positions p xs = map fst (filter (\<lambda>ix. p (snd ix)) (enumerate 0 xs))"

text \<open>
  Writing a block over a selection of rows \<open>is\<close> and columns \<open>js\<close>, position by position.
\<close>

definition set_row :: "real list \<Rightarrow> nat list \<Rightarrow> real list \<Rightarrow> real list" where
  "set_row row js vs = fold (\<lambda>jv r. r[fst jv := snd jv]) (zip js vs) row"

definition set_block :: "real list list \<Rightarrow> nat list \<Rightarrow> nat list \<Rightarrow> real list list \<Rightarrow> real list list" where
  "set_block m is js block = fold (\<lambda>ib m'. m'[fst ib := set_row (m' ! fst ib) js (snd ib)]) (zip is block) m"

text \<open>
  \<open>df.loc[(modality, outcome), (level, ...)] = v\<close> with both labels given in full
  selects the rows and the columns that carry the label (one of each, in the stub) and
  writes the scalar \<open>v\<close> to every selected cell. For a label that the table does not have,
  pandas would enlarge the table; the model stops with \<open>KeyError\<close> instead, and the
  notebook only names labels that the stub has.
\<close>

definition loc_set_cell ::
  "data_frame \<Rightarrow> string \<times> string \<Rightarrow> string list \<Rightarrow> real \<Rightarrow> py_error + data_frame" where
  "loc_set_cell df row col v =
     (let is = positions (\<lambda>r. r = row) (index df);
          js = positions (\<lambda>c. c = col) (columns df)
      in if is = [] \<or> js = [] then Inl KeyError
         else Inr (df\<lparr>cells :=
                set_block (cells df) is js (replicate (length is) (replicate (length js) v))\<rparr>))"

text \<open>
  \<open>df.loc[modality, level] = block\<close> with only the first level of each label given
  selects every row of that modality and every column of that first level, and writes the
  two-dimensional \<open>block\<close> over the selection. A first level that selects nothing is
  \<open>KeyError\<close>. The notebook's blocks have the shape of their selection; a block of
  another shape is \<open>ValueError\<close> here (numpy would still accept one that broadcasts).
\<close>

definition first_level :: "string \<Rightarrow> string list \<Rightarrow> bool" where
  "first_level l c = (case c of [] \<Rightarrow> False | l' # _ \<Rightarrow> l' = l)"

definition loc_set_block ::
  "data_frame \<Rightarrow> string \<Rightarrow> string \<Rightarrow> real list list \<Rightarrow> py_error + data_frame" where
  "loc_set_block df modality level block =
     (let is = positions (\<lambda>r. fst r = modality) (index df);
          js = positions (first_level level) (columns df)
      in if is = [] \<or> js = [] then Inl KeyError
         else if length block = length is \<and> list_all (\<lambda>brow. length brow = length js) block
         then Inr (df\<lparr>cells := set_block (cells df) is js block\<rparr>)
         else Inl ValueError)"

text \<open>\<open>np.tile(np.array(xs).reshape(-1,1), (1,reps))\<close>: the column \<open>xs\<close> repeated \<open>reps\<close> times.\<close>

definition np_tile_column :: "real list \<Rightarrow> nat \<Rightarrow> real list list" where
  "np_tile_column xs reps = map (replicate reps) xs"

subsection \<open>Option 2: filling the stub in code\<close>

text \<open>
  The cell of the notebook that fills the table, with the numbers it writes taken as
  arguments \<open>v1 \<dots> v6\<close> (the six single cells, in the order of the statements) and
  \<open>w_rained\<close>, \<open>w_dry\<close> (the two weather columns):
  \<^verbatim>\<open>A_stub.loc[('grass_observation','wet'),('rained', 'on')] = v1
A_stub.loc[('grass_observation','wet'),('rained', 'off')] = v2
A_stub.loc[('grass_observation','dry'),('rained', 'off')] = v3
A_stub.loc[('grass_observation','wet'),('did_not_rain', 'on')] = v4
A_stub.loc[('grass_observation','dry'),('did_not_rain', 'on')] = v5
A_stub.loc[('grass_observation','dry'),('did_not_rain', 'off')] = v6
A_stub.loc['weather_observation','rained'] = np.tile(np.array(w_rained).reshape(-1,1), (1,2))
A_stub.loc[('weather_observation'),('did_not_rain')] = np.tile(np.array(w_dry).reshape(-1,1), (1,2))\<close>
\<close>

definition fill_A_stub ::
  "real \<Rightarrow> real \<Rightarrow> real \<Rightarrow> real \<Rightarrow> real \<Rightarrow> real \<Rightarrow> real list \<Rightarrow> real list \<Rightarrow>
   data_frame \<Rightarrow> py_error + data_frame" where
  "fill_A_stub v1 v2 v3 v4 v5 v6 w_rained w_dry A_stub =
     bind (loc_set_cell A_stub (''grass_observation'', ''wet'') [''rained'', ''on''] v1) (\<lambda>A1.
     bind (loc_set_cell A1 (''grass_observation'', ''wet'') [''rained'', ''off''] v2) (\<lambda>A2.
     bind (loc_set_cell A2 (''grass_observation'', ''dry'') [''rained'', ''off''] v3) (\<lambda>A3.
     bind (loc_set_cell A3 (''grass_observation'', ''wet'') [''did_not_rain'', ''on''] v4) (\<lambda>A4.
     bind (loc_set_cell A4 (''grass_observation'', ''dry'') [''did_not_rain'', ''on''] v5) (\<lambda>A5.
     bind (loc_set_cell A5 (''grass_observation'', ''dry'') [''did_not_rain'', ''off''] v6) (\<lambda>A6.
     bind (loc_set_block A6 ''weather_observation'' ''rained'' (np_tile_column w_rained 2)) (\<lambda>A7.
     loc_set_block A7 ''weather_observation'' ''did_not_rain'' (np_tile_column w_dry 2))))))))"

text \<open>The numbers the notebook writes: \<open>1.0, 0.7, 0.3, 0.5, 0.5, 1.0\<close> and the two columns.\<close>

definition option2 :: "data_frame \<Rightarrow> py_error + data_frame" where
  "option2 = fill_A_stub 1.0 0.7 0.3 0.5 0.5 1.0 [0.1, 0.65, 0.25] [0.9, 0.05, 0.05]"

text \<open>
  The cells from \<open>A_stub = create_A_matrix_stub(model_labels)\<close> to the filled table.
  The notebook sets \<open>read_from_excel = True\<close>; then the table is whatever
  \<open>read_A_matrix(excel_path, n_factors)\<close> returns (the argument \<open>from_excel\<close>: a file's
  content), and Option 2, guarded by \<open>if not read_from_excel\<close>, does not run.
\<close>

definition demo_A_stub :: "bool \<Rightarrow> py_error + data_frame \<Rightarrow> py_error + data_frame" where
  "demo_A_stub read_from_excel from_excel =
     bind (if read_from_excel then from_excel else Inr (create_A_matrix_stub model_labels))
       (\<lambda>A_stub. if \<not> read_from_excel then option2 A_stub else Inr A_stub)"

text \<open>
  The sum, down column \<open>j\<close>, of the cells in the rows of one modality: the total
  probability a hidden-state configuration gives to that modality's outcomes.
\<close>

definition modality_column_sum :: "data_frame \<Rightarrow> string \<Rightarrow> nat \<Rightarrow> real" where
  "modality_column_sum df modality j =
     sum_list (map (\<lambda>i. cells df ! i ! j) (positions (\<lambda>r. fst r = modality) (index df)))"

subsection \<open>From the table to the likelihood arrays\<close>







subsection \<open>The sampled observation\<close>

text \<open>
  Modelled from the spec: \<open>pymdp.utils.obj_array_zeros\<close> is not among the sources; from
  its name and its use it returns one zero vector per entry of the shape list.
\<close>

definition obj_array_zeros :: "nat list \<Rightarrow> real list list" where
  "obj_array_zeros shape_list = map np_zeros1 shape_list"

text \<open>
  \<^verbatim>\<open>for g, modality_name in enumerate(model_labels['observations'].keys()):
    observation[g][obs_idx[g]] = 1.0
    print('%s: %s'%(modality_name,
                    model_labels['observations'][modality_name][obs_idx[g]]))\<close>
  The \<open>print\<close> has no effect on the data, but its lookups can raise.
\<close>

fun observation_loop ::
  "(nat \<times> string) list \<Rightarrow> int list \<Rightarrow> real list list \<Rightarrow> py_error + real list list" where
  "observation_loop [] obs_idx observation = Inr observation"
| "observation_loop ((g, modality_name) # rest) obs_idx observation =
     bind (np_index (length observation) (int g)) (\<lambda>g'.
     bind (py_list_get obs_idx (int g)) (\<lambda>i.
     bind (np_set1 (observation ! g') i 1.0) (\<lambda>og.
     bind (dict_get (observations model_labels) modality_name) (\<lambda>outcomes.
     bind (py_list_get outcomes i) (\<lambda>outcome.
     observation_loop rest obs_idx (observation[g' := og]))))))"

text \<open>
  \<open>obs_idx\<close> is drawn at random, \<open>np.random.randint(o_dim)\<close> for each \<open>o_dim\<close> of
  \<open>num_obs\<close>: an argument here.
  \<^verbatim>\<open>observation = utils.obj_array_zeros(num_obs)\<close>
\<close>

definition demo_observation :: "int list \<Rightarrow> py_error + real list list" where
  "demo_observation obs_idx =
     observation_loop (enumerate 0 (map fst (observations model_labels))) obs_idx
       (obj_array_zeros num_obs)"

section \<open>Evaluating the tutorial's constructions\<close>

text \<open>
  The next state of every state (row) under every action (column): the content of
  \<open>P\<close> as the notebook displays it.
\<close>

definition next_table :: "nat list list" where
  "next_table =
     [[0, 1, 3, 0, 0], [1, 2, 4, 0, 1], [2, 2, 5, 1, 2],
      [0, 4, 6, 3, 3], [1, 5, 7, 3, 4], [2, 5, 8, 4, 5],
      [3, 7, 6, 6, 6], [4, 8, 7, 6, 7], [5, 8, 8, 7, 8]]"

text \<open>
  The dictionary \<open>P\<close>, the array \<open>B\<close> and the grid are closed terms: they are computed
  once, and every later proof reads the computed values.
\<close>

lemma P_dict_value:
  "P_dict = Inr
     [(0, [(0, PyInt 0), (1, PyInt 1), (2, PyInt 3), (3, PyInt 0), (4, PyInt 0)]),
      (1, [(0, PyInt 1), (1, PyInt 2), (2, PyInt 4), (3, PyInt 0), (4, PyInt 1)]),
      (2, [(0, PyInt 2), (1, PyInt 2), (2, PyInt 5), (3, PyInt 1), (4, PyInt 2)]),
      (3, [(0, PyInt 0), (1, PyInt 4), (2, PyInt 6), (3, PyInt 3), (4, PyInt 3)]),
      (4, [(0, PyInt 1), (1, PyInt 5), (2, PyInt 7), (3, PyInt 3), (4, PyInt 4)]),
      (5, [(0, PyInt 2), (1, PyInt 5), (2, PyInt 8), (3, PyInt 4), (4, PyInt 5)]),
      (6, [(0, PyInt 3), (1, PyInt 7), (2, PyInt 6), (3, PyInt 6), (4, PyInt 6)]),
      (7, [(0, PyInt 4), (1, PyInt 8), (2, PyInt 7), (3, PyInt 6), (4, PyInt 7)]),
      (8, [(0, PyInt 5), (1, PyInt 8), (2, PyInt 8), (3, PyInt 7), (4, PyInt 8)])]"
  by code_simp

lemma P_lookup_table:
  "map (\<lambda>s. map (\<lambda>a. P_lookup (projr P_dict) (int s) (int a)) [0..<5]) [0..<9]
     = map (map (\<lambda>ns. Inr (int ns))) next_table"
  by code_simp

lemma B_matrix_value:
  "B_matrix = Inr (map (\<lambda>ns. map (\<lambda>s. map (\<lambda>a. if next_table ! s ! a = ns then 1 else 0)
                                   [0..<5]) [0..<9]) [0..<9])"
  by code_simp

lemma grid_value: "grid = Inr [[0, 1, 2], [3, 4, 5], [6, 7, 8]]"
  by code_simp

lemma next_table_bound: "\<forall>s\<in>{0..<9}. \<forall>a\<in>{0..<5}. next_table ! s ! a < 9"
  by code_simp

lemma next_table_rows: "length next_table = 9 \<and> (\<forall>s<9. length (next_table ! s) = 5)"
  by (simp add: next_table_def All_less_Suc numeral_eq_Suc)

lemma B_matrix_Inr: "B_matrix = Inr (projr B_matrix)"
  by (simp add: B_matrix_value)

lemma P_dict_Inr: "P_dict = Inr (projr P_dict)"
  by (simp add: P_dict_value)

lemma grid_Inr: "grid = Inr (projr grid)"
  by (simp add: grid_value)

lemma B_entry:
  assumes "ns < 9" "s < 9" "a < 5"
  shows "projr B_matrix ! ns ! s ! a = (if next_table ! s ! a = ns then 1 else 0)"
  using assms by (simp add: B_matrix_value)

lemma P_lookup_entry:
  assumes "s < 9" "a < 5"
  shows "P_lookup (projr P_dict) (int s) (int a) = Inr (int (next_table ! s ! a))"
proof -
  have "map (\<lambda>s. map (\<lambda>a. P_lookup (projr P_dict) (int s) (int a)) [0..<5]) [0..<9] ! s ! a
          = map (map (\<lambda>ns. Inr (int ns))) next_table ! s ! a"
    by (simp only: P_lookup_table)
  moreover have "length next_table = 9" "length (next_table ! s) = 5"
    using assms(1) next_table_rows by auto
  ultimately show ?thesis using assms by simp
qed

lemma actions_index:
  "dict_get actions ''UP'' = Inr 0 \<and> dict_get actions ''RIGHT'' = Inr 1 \<and>
   dict_get actions ''DOWN'' = Inr 2 \<and> dict_get actions ''LEFT'' = Inr 3 \<and>
   dict_get actions ''STAY'' = Inr 4"
  by (simp add: dict_get_def actions_def)

lemma indicator_sum_upt: "k < n \<Longrightarrow> (\<Sum>i\<leftarrow>[0..<n]. if k = i then 1 else 0) = (1::real)"
  by (simp add: interv_sum_list_conv_sum_set_nat)

lemma int_range_8: "{0..8::int} = {0, 1, 2, 3, 4, 5, 6, 7, 8}"
  by auto

lemma int_range_4: "{0..4::int} = {0, 1, 2, 3, 4}"
  by auto

lemma int_range_2: "{0..2::int} = {0, 1, 2}"
  by auto

lemma nat_range_3: "{0..<3::nat} = {0, 1, 2}"
  by auto

section \<open>The transition array\<close>

text \<open>
  C1. The construction of \<open>B\<close> succeeds, and for every prior state \<open>s\<close> in \<open>0..8\<close> and
  every action \<open>a\<close> in \<open>0..4\<close> the entries \<open>B[ns, s, a]\<close>, summed over the next states
  \<open>ns\<close>, give \<open>1\<close>.
\<close>

theorem B_column_sums_one:
  "\<exists>Bv. B_matrix = Inr Bv \<and>
     (\<forall>s\<in>{0..<9}. \<forall>a\<in>{0..<5}. (\<Sum>ns\<leftarrow>[0..<9]. Bv ! ns ! s ! a) = 1)"
proof -
  have "(\<Sum>ns\<leftarrow>[0..<9]. projr B_matrix ! ns ! s ! a) = 1"
    if "s \<in> {0..<9}" "a \<in> {0..<5}" for s a
  proof -
    have "map (\<lambda>ns. projr B_matrix ! ns ! s ! a) [0..<9]
            = map (\<lambda>ns. if next_table ! s ! a = ns then 1 else 0) [0..<9]"
      using that by (intro map_cong refl B_entry) auto
    moreover have "next_table ! s ! a < 9"
      using that next_table_bound by blast
    ultimately show ?thesis
      by (simp only: indicator_sum_upt)
  qed
  with B_matrix_Inr show ?thesis by blast
qed

theorem B_column_sums_one_witness:
  "\<exists>Bv. B_matrix = Inr Bv \<and> (4::nat) \<in> {0..<9} \<and> (1::nat) \<in> {0..<5} \<and>
     (\<Sum>ns\<leftarrow>[0..<9]. Bv ! ns ! 4 ! 1) = 1"
  using B_column_sums_one by fastforce

lemma boundary_stays:
  "\<forall>(s, x, y)\<in>set state_mapping.
        (y = 0 \<longrightarrow> P_lookup (projr P_dict) s 0 = Inr s \<and> projr B_matrix ! nat s ! nat s ! 0 = 1) \<and>
        (x = 2 \<longrightarrow> P_lookup (projr P_dict) s 1 = Inr s \<and> projr B_matrix ! nat s ! nat s ! 1 = 1) \<and>
        (y = 2 \<longrightarrow> P_lookup (projr P_dict) s 2 = Inr s \<and> projr B_matrix ! nat s ! nat s ! 2 = 1) \<and>
        (x = 0 \<longrightarrow> P_lookup (projr P_dict) s 3 = Inr s \<and> projr B_matrix ! nat s ! nat s ! 3 = 1)"
  by (simp add: state_mapping_def P_dict_value B_matrix_value next_table_def P_lookup_def dict_get_def bind_def py_int_def)

text \<open>
  C2. The transitions are deterministic: for every state \<open>s\<close> and action \<open>a\<close> there is a
  next state \<open>ns\<close> in \<open>0..8\<close>, the one stored in \<open>P[s][a]\<close>, with \<open>B[ns, s, a] = 1\<close>, and
  every other entry of that column is \<open>0\<close>. Where the action would leave the grid
  (\<open>UP\<close> = 0 at \<open>y = 0\<close>, \<open>RIGHT\<close> = 1 at \<open>x = 2\<close>, \<open>DOWN\<close> = 2 at \<open>y = 2\<close>, \<open>LEFT\<close> = 3
  at \<open>x = 0\<close>), the next state is \<open>s\<close> itself.
\<close>

theorem B_deterministic:
  "\<exists>Pv Bv. P_dict = Inr Pv \<and> B_matrix = Inr Bv \<and>
     (\<forall>s\<in>{0..<9}. \<forall>a\<in>{0..<5}. \<exists>ns\<in>{0..<9}.
        P_lookup Pv (int s) (int a) = Inr (int ns) \<and> Bv ! ns ! s ! a = 1 \<and>
        (\<forall>ns'\<in>{0..<9}. ns' \<noteq> ns \<longrightarrow> Bv ! ns' ! s ! a = 0)) \<and>
     dict_get actions ''UP'' = Inr 0 \<and> dict_get actions ''RIGHT'' = Inr 1 \<and>
     dict_get actions ''DOWN'' = Inr 2 \<and> dict_get actions ''LEFT'' = Inr 3 \<and>
     (\<forall>(s, x, y)\<in>set state_mapping.
        (y = 0 \<longrightarrow> P_lookup Pv s 0 = Inr s \<and> Bv ! nat s ! nat s ! 0 = 1) \<and>
        (x = 2 \<longrightarrow> P_lookup Pv s 1 = Inr s \<and> Bv ! nat s ! nat s ! 1 = 1) \<and>
        (y = 2 \<longrightarrow> P_lookup Pv s 2 = Inr s \<and> Bv ! nat s ! nat s ! 2 = 1) \<and>
        (x = 0 \<longrightarrow> P_lookup Pv s 3 = Inr s \<and> Bv ! nat s ! nat s ! 3 = 1))"
proof -
  have det: "\<exists>ns\<in>{0..<9}.
        P_lookup (projr P_dict) (int s) (int a) = Inr (int ns) \<and>
        projr B_matrix ! ns ! s ! a = 1 \<and>
        (\<forall>ns'\<in>{0..<9}. ns' \<noteq> ns \<longrightarrow> projr B_matrix ! ns' ! s ! a = 0)"
    if "s \<in> {0..<9}" "a \<in> {0..<5}" for s a
  proof -
    have b: "next_table ! s ! a \<in> {0..<9}"
      using that next_table_bound by simp
    have "P_lookup (projr P_dict) (int s) (int a) = Inr (int (next_table ! s ! a))"
      using that by (simp add: P_lookup_entry)
    moreover have "projr B_matrix ! (next_table ! s ! a) ! s ! a = 1"
      using that b by (simp add: B_entry)
    moreover have "\<forall>ns'\<in>{0..<9}. ns' \<noteq> next_table ! s ! a \<longrightarrow> projr B_matrix ! ns' ! s ! a = 0"
      using that by (simp add: B_entry)
    ultimately show ?thesis using b by blast
  qed
  show ?thesis
    apply (rule exI [of _ "projr P_dict"])
    apply (rule exI [of _ "projr B_matrix"])
    apply (intro conjI ballI)
           apply (rule P_dict_Inr)
          apply (rule B_matrix_Inr)
         apply (erule (1) det)
        apply (simp_all only: actions_index boundary_stays)
    done
qed

theorem B_deterministic_witness:
  "\<exists>Pv Bv. P_dict = Inr Pv \<and> B_matrix = Inr Bv \<and> (2, 2, 0) \<in> set state_mapping \<and>
     P_lookup Pv 2 1 = Inr 2 \<and> Bv ! 2 ! 2 ! 1 = 1 \<and> Bv ! 3 ! 2 ! 1 = 0"
proof -
  from B_deterministic obtain Pv Bv where
    h: "P_dict = Inr Pv" "B_matrix = Inr Bv" and
    det: "\<forall>s\<in>{0..<9}. \<forall>a\<in>{0..<5}. \<exists>ns\<in>{0..<9}.
        P_lookup Pv (int s) (int a) = Inr (int ns) \<and> Bv ! ns ! s ! a = 1 \<and>
        (\<forall>ns'\<in>{0..<9}. ns' \<noteq> ns \<longrightarrow> Bv ! ns' ! s ! a = 0)" and
    bd: "\<forall>(s, x, y)\<in>set state_mapping.
        (y = 0 \<longrightarrow> P_lookup Pv s 0 = Inr s \<and> Bv ! nat s ! nat s ! 0 = 1) \<and>
        (x = 2 \<longrightarrow> P_lookup Pv s 1 = Inr s \<and> Bv ! nat s ! nat s ! 1 = 1) \<and>
        (y = 2 \<longrightarrow> P_lookup Pv s 2 = Inr s \<and> Bv ! nat s ! nat s ! 2 = 1) \<and>
        (x = 0 \<longrightarrow> P_lookup Pv s 3 = Inr s \<and> Bv ! nat s ! nat s ! 3 = 1)"
    by (elim exE conjE)
  have m: "(2, 2, 0) \<in> set state_mapping"
    by (simp add: state_mapping_def)
  have "case (2::int, 2::int, 0::int) of (s, x, y) \<Rightarrow>
        (y = 0 \<longrightarrow> P_lookup Pv s 0 = Inr s \<and> Bv ! nat s ! nat s ! 0 = 1) \<and>
        (x = 2 \<longrightarrow> P_lookup Pv s 1 = Inr s \<and> Bv ! nat s ! nat s ! 1 = 1) \<and>
        (y = 2 \<longrightarrow> P_lookup Pv s 2 = Inr s \<and> Bv ! nat s ! nat s ! 2 = 1) \<and>
        (x = 0 \<longrightarrow> P_lookup Pv s 3 = Inr s \<and> Bv ! nat s ! nat s ! 3 = 1)"
    using bd m by (rule bspec)
  then have w: "P_lookup Pv 2 1 = Inr 2" and one: "Bv ! 2 ! 2 ! 1 = 1"
    by simp_all
  have "\<exists>ns\<in>{0..<9}. P_lookup Pv (int 2) (int 1) = Inr (int ns) \<and> Bv ! ns ! 2 ! 1 = 1 \<and>
        (\<forall>ns'\<in>{0..<9}. ns' \<noteq> ns \<longrightarrow> Bv ! ns' ! 2 ! 1 = 0)"
    using det [rule_format, of 2 1] by simp
  then obtain ns where ns: "Bv ! ns ! 2 ! 1 = 1"
      "\<forall>ns'\<in>{0..<9}. ns' \<noteq> ns \<longrightarrow> Bv ! ns' ! 2 ! 1 = 0" by blast
  have "ns = 2"
  proof (rule ccontr)
    assume "ns \<noteq> 2"
    with ns(2) have "Bv ! 2 ! 2 ! 1 = 0" by simp
    with one show False by simp
  qed
  with ns(2) have "Bv ! 3 ! 2 ! 1 = 0" by simp
  with h m w one show ?thesis by blast
qed

section \<open>Row and column sums\<close>

lemma A_sums: "\<forall>j\<in>{0..<9}. col_sum A_matrix j = 1 \<and> row_sum A_matrix j = 1"
  by code_simp

lemma B_col_sums: "\<forall>a\<in>{0..<5}. \<forall>s\<in>{0..<9}. col_sum (B_slice (projr B_matrix) a) s = 1"
  unfolding B_matrix_value sum.sel by code_simp

lemma B_row_sums:
  "map (row_sum (B_slice (projr B_matrix) 0)) [0..<9] = [2, 2, 2, 1, 1, 1, 0, 0, 0] \<and>
   map (row_sum (B_slice (projr B_matrix) 1)) [0..<9] = [0, 1, 2, 0, 1, 2, 0, 1, 2] \<and>
   map (row_sum (B_slice (projr B_matrix) 2)) [0..<9] = [0, 0, 0, 1, 1, 1, 2, 2, 2] \<and>
   map (row_sum (B_slice (projr B_matrix) 3)) [0..<9] = [2, 1, 0, 2, 1, 0, 2, 1, 0] \<and>
   map (row_sum (B_slice (projr B_matrix) 4)) [0..<9] = [1, 1, 1, 1, 1, 1, 1, 1, 1]"
  unfolding B_matrix_value sum.sel by code_simp

lemma B_stay_row_sums: "\<forall>ns\<in>{0..<9}. row_sum (B_slice (projr B_matrix) 4) ns = 1"
  unfolding B_matrix_value sum.sel by code_simp

text \<open>
  C3, as amended. Every column of \<open>A\<close> and of every slice \<open>B[:, :, a]\<close> sums to \<open>1\<close>.
  Every row of \<open>A\<close> and of the slice of \<open>STAY\<close> (\<open>a = 4\<close>) sums to \<open>1\<close>. The rows of the
  four movement slices do not: a row sums to the number of states the action sends to it,
  which is \<open>2\<close> along the wall the action pushes against, \<open>0\<close> along the opposite wall
  and \<open>1\<close> in between.
\<close>

theorem stochastic_sums:
  "\<exists>Bv. B_matrix = Inr Bv \<and>
     (\<forall>j\<in>{0..<9}. col_sum A_matrix j = 1 \<and> row_sum A_matrix j = 1) \<and>
     (\<forall>a\<in>{0..<5}. \<forall>s\<in>{0..<9}. col_sum (B_slice Bv a) s = 1) \<and>
     (\<forall>ns\<in>{0..<9}. row_sum (B_slice Bv 4) ns = 1) \<and>
     map (row_sum (B_slice Bv 0)) [0..<9] = [2, 2, 2, 1, 1, 1, 0, 0, 0] \<and>
     map (row_sum (B_slice Bv 1)) [0..<9] = [0, 1, 2, 0, 1, 2, 0, 1, 2] \<and>
     map (row_sum (B_slice Bv 2)) [0..<9] = [0, 0, 0, 1, 1, 1, 2, 2, 2] \<and>
     map (row_sum (B_slice Bv 3)) [0..<9] = [2, 1, 0, 2, 1, 0, 2, 1, 0]"
  apply (rule exI [of _ "projr B_matrix"])
  apply (intro conjI)
         apply (rule B_matrix_Inr)
        apply (rule A_sums)
       apply (rule B_col_sums)
      apply (rule B_stay_row_sums)
     apply (simp_all only: B_row_sums)
  done

theorem stochastic_sums_witness:
  "\<exists>Bv. B_matrix = Inr Bv \<and> (3::nat) \<in> {0..<9} \<and> (0::nat) \<in> {0..<5} \<and>
     col_sum A_matrix 3 = 1 \<and> row_sum A_matrix 3 = 1 \<and>
     col_sum (B_slice Bv 0) 3 = 1 \<and> row_sum (B_slice Bv 4) 3 = 1"
proof -
  from stochastic_sums obtain Bv where
    h: "B_matrix = Inr Bv" and
    a: "\<forall>j\<in>{0..<9}. col_sum A_matrix j = 1 \<and> row_sum A_matrix j = 1" and
    c: "\<forall>a\<in>{0..<5}. \<forall>s\<in>{0..<9}. col_sum (B_slice Bv a) s = 1" and
    r: "\<forall>ns\<in>{0..<9}. row_sum (B_slice Bv 4) ns = 1"
    by (elim exE conjE)
  have m: "(3::nat) \<in> {0..<9}" "(0::nat) \<in> {0..<5}" by simp_all
  from a m(1) have "col_sum A_matrix 3 = 1 \<and> row_sum A_matrix 3 = 1" by (rule bspec)
  moreover from c m have "col_sum (B_slice Bv 0) 3 = 1" by blast
  moreover from r m(1) have "row_sum (B_slice Bv 4) 3 = 1" by (rule bspec)
  ultimately show ?thesis using h m by blast
qed

text \<open>
  The claim as stated fails at the slice of \<open>UP\<close>: both state \<open>0\<close> and state \<open>3\<close> move to
  state \<open>0\<close>, so row \<open>0\<close> sums to \<open>2\<close>.
\<close>

theorem row_sum_counterexample:
  "B_matrix = Inr (projr B_matrix) \<and> row_sum (B_slice (projr B_matrix) 0) 0 = 2 \<and>
   row_sum (B_slice (projr B_matrix) 0) 0 \<noteq> 1"
  apply (simp only: B_matrix_value sum.sel)
  apply code_simp
  done

section \<open>The likelihood matrix\<close>

text \<open>
  C4. The likelihood matrix is the 9x9 identity: it has nine rows of nine entries, and
  \<open>A[i, j]\<close> is \<open>1\<close> if \<open>i = j\<close> and \<open>0\<close> otherwise.
\<close>

theorem A_identity:
  "length A_matrix = 9 \<and>
   (\<forall>i\<in>{0..<9}. length (A_matrix ! i) = 9 \<and>
      (\<forall>j\<in>{0..<9}. A_matrix ! i ! j = (if i = j then 1 else 0)))"
  by (simp add: A_matrix_def np_eye_def)

theorem A_identity_witness:
  "(3::nat) \<in> {0..<9} \<and> (5::nat) \<in> {0..<9} \<and> A_matrix ! 3 ! 3 = 1 \<and> A_matrix ! 3 ! 5 = 0"
proof -
  have m: "(3::nat) \<in> {0..<9}" "(5::nat) \<in> {0..<9}" by simp_all
  from A_identity have "\<forall>i\<in>{0..<9}. \<forall>j\<in>{0..<9}. A_matrix ! i ! j = (if i = j then 1 else 0)"
    by blast
  with m have "A_matrix ! 3 ! 3 = (if (3::nat) = 3 then 1 else 0)"
    "A_matrix ! 3 ! 5 = (if (3::nat) = 5 then 1 else 0)" by blast+
  with m show ?thesis by simp
qed

section \<open>The state space\<close>

lemma state_mapping_keys: "map fst state_mapping = [0..8]"
  by code_simp

lemma state_mapping_formula:
  "\<forall>x\<in>{0..2}. \<forall>y\<in>{0..2}. map_of state_mapping (3 * y + x) = Some (x, y)"
  by code_simp

lemma state_mapping_inj: "inj_on (map_of state_mapping) {0..8}"
  by (simp add: int_range_8 state_mapping_def)

lemma state_mapping_image:
  "map_of state_mapping ` {0..8} = Some ` ({0..2} \<times> {0..2})"
  by (auto simp add: int_range_8 int_range_2 state_mapping_def)

lemma grid_formula:
  "\<forall>x\<in>{0..<3}. \<forall>y\<in>{0..<3}. projr grid ! y ! x = real (3 * y + x)"
  by (simp add: grid_value nat_range_3)

lemma P_in_range:
  "\<forall>s\<in>{0..8}. \<forall>a\<in>{0..4}. \<exists>ns\<in>{0..8}. P_lookup (projr P_dict) s a = Inr ns"
  by (simp add: int_range_8 int_range_4 P_dict_value P_lookup_def dict_get_def bind_def py_int_def)

text \<open>
  C8. \<open>state_mapping\<close> has exactly the keys \<open>0..8\<close>, is injective on them and maps them
  onto the pairs of \<open>{0,1,2} \<times> {0,1,2}\<close>; the pair \<open>(x, y)\<close> is the value of the key
  \<open>3*y + x\<close>. The grid is built without error and holds \<open>3*y + x\<close> at \<open>[y, x]\<close>. Every
  entry \<open>P[s][a]\<close> is a state index in \<open>0..8\<close>.
\<close>

theorem state_mapping_bijection:
  "map fst state_mapping = [0..8] \<and>
   inj_on (map_of state_mapping) {0..8} \<and>
   map_of state_mapping ` {0..8} = Some ` ({0..2} \<times> {0..2}) \<and>
   (\<forall>x\<in>{0..2}. \<forall>y\<in>{0..2}. map_of state_mapping (3 * y + x) = Some (x, y)) \<and>
   (\<exists>g. grid = Inr g \<and> (\<forall>x\<in>{0..<3}. \<forall>y\<in>{0..<3}. g ! y ! x = real (3 * y + x))) \<and>
   (\<exists>Pv. P_dict = Inr Pv \<and>
      (\<forall>s\<in>{0..8}. \<forall>a\<in>{0..4}. \<exists>ns\<in>{0..8}. P_lookup Pv s a = Inr ns))"
  using state_mapping_keys state_mapping_inj state_mapping_image state_mapping_formula
    grid_Inr grid_formula P_dict_Inr P_in_range
  by blast

theorem state_mapping_bijection_witness:
  "(1::int) \<in> {0..2} \<and> (2::int) \<in> {0..2} \<and> map_of state_mapping 7 = Some (1, 2) \<and>
   (\<exists>g. grid = Inr g \<and> g ! 2 ! 1 = 7) \<and>
   (\<exists>Pv ns. P_dict = Inr Pv \<and> P_lookup Pv 7 1 = Inr ns \<and> 0 \<le> ns \<and> ns \<le> 8)"
proof -
  have f: "\<forall>x\<in>{0..2}. \<forall>y\<in>{0..2}. map_of state_mapping (3 * y + x) = Some (x, y)"
    using state_mapping_bijection by (elim conjE)
  have g: "\<exists>g. grid = Inr g \<and> (\<forall>x\<in>{0..<3}. \<forall>y\<in>{0..<3}. g ! y ! x = real (3 * y + x))"
    using state_mapping_bijection by (elim conjE)
  have p: "\<exists>Pv. P_dict = Inr Pv \<and>
      (\<forall>s\<in>{0..8}. \<forall>a\<in>{0..4}. \<exists>ns\<in>{0..8}. P_lookup Pv s a = Inr ns)"
    using state_mapping_bijection by (elim conjE)
  have m: "(1::int) \<in> {0..2}" "(2::int) \<in> {0..2}" by simp_all
  from f m have "map_of state_mapping (3 * 2 + 1) = Some (1, 2)" by blast
  then have 1: "map_of state_mapping 7 = Some (1, 2)" by simp
  from g obtain gv where gv: "grid = Inr gv"
    "\<forall>x\<in>{0..<3}. \<forall>y\<in>{0..<3}. gv ! y ! x = real (3 * y + x)" by blast
  have "(1::nat) \<in> {0..<3}" "(2::nat) \<in> {0..<3}" by simp_all
  with gv(2) have "gv ! 2 ! 1 = real (3 * 2 + 1)" by blast
  then have 2: "gv ! 2 ! 1 = 7" by simp
  from p obtain Pv where pv: "P_dict = Inr Pv"
    "\<forall>s\<in>{0..8}. \<forall>a\<in>{0..4}. \<exists>ns\<in>{0..8}. P_lookup Pv s a = Inr ns" by blast
  have "(7::int) \<in> {0..8}" "(1::int) \<in> {0..4}" by simp_all
  with pv(2) have "\<exists>ns\<in>{0..8}. P_lookup Pv 7 1 = Inr ns" by blast
  then obtain ns where 3: "P_lookup Pv 7 1 = Inr ns" "0 \<le> ns" "ns \<le> 8" by auto
  from m 1 2 3 gv(1) pv(1) show ?thesis by blast
qed

lemma inverse_moves:
  "(\<forall>(s, x, y)\<in>set state_mapping.
        (x \<noteq> 2 \<longrightarrow> bind (P_lookup (projr P_dict) s 1) (\<lambda>t. P_lookup (projr P_dict) t 3) = Inr s) \<and>
        (x \<noteq> 0 \<longrightarrow> bind (P_lookup (projr P_dict) s 3) (\<lambda>t. P_lookup (projr P_dict) t 1) = Inr s) \<and>
        (y \<noteq> 0 \<longrightarrow> bind (P_lookup (projr P_dict) s 0) (\<lambda>t. P_lookup (projr P_dict) t 2) = Inr s) \<and>
        (y \<noteq> 2 \<longrightarrow> bind (P_lookup (projr P_dict) s 2) (\<lambda>t. P_lookup (projr P_dict) t 0) = Inr s))"
  by (simp add: state_mapping_def P_dict_value B_matrix_value next_table_def P_lookup_def dict_get_def bind_def py_int_def)

text \<open>
  C9. Opposite moves undo each other away from the wall: for a state \<open>s\<close> at \<open>(x, y)\<close>,
  \<open>P[P[s][RIGHT]][LEFT] = s\<close> unless \<open>x = 2\<close>, \<open>P[P[s][LEFT]][RIGHT] = s\<close> unless \<open>x = 0\<close>,
  \<open>P[P[s][UP]][DOWN] = s\<close> unless \<open>y = 0\<close>, and \<open>P[P[s][DOWN]][UP] = s\<close> unless \<open>y = 2\<close>
  (\<open>UP\<close> = 0, \<open>RIGHT\<close> = 1, \<open>DOWN\<close> = 2, \<open>LEFT\<close> = 3).
\<close>

theorem opposite_moves_invert:
  "\<exists>Pv. P_dict = Inr Pv \<and>
     dict_get actions ''UP'' = Inr 0 \<and> dict_get actions ''RIGHT'' = Inr 1 \<and>
     dict_get actions ''DOWN'' = Inr 2 \<and> dict_get actions ''LEFT'' = Inr 3 \<and>
     (\<forall>(s, x, y)\<in>set state_mapping.
        (x \<noteq> 2 \<longrightarrow> bind (P_lookup Pv s 1) (\<lambda>t. P_lookup Pv t 3) = Inr s) \<and>
        (x \<noteq> 0 \<longrightarrow> bind (P_lookup Pv s 3) (\<lambda>t. P_lookup Pv t 1) = Inr s) \<and>
        (y \<noteq> 0 \<longrightarrow> bind (P_lookup Pv s 0) (\<lambda>t. P_lookup Pv t 2) = Inr s) \<and>
        (y \<noteq> 2 \<longrightarrow> bind (P_lookup Pv s 2) (\<lambda>t. P_lookup Pv t 0) = Inr s))"
  apply (rule exI [of _ "projr P_dict"])
  apply (intro conjI)
       apply (rule P_dict_Inr)
      apply (simp_all only: actions_index)
  apply (rule inverse_moves)
  done

theorem opposite_moves_invert_witness:
  "\<exists>Pv. P_dict = Inr Pv \<and> (4, 1, 1) \<in> set state_mapping \<and>
     bind (P_lookup Pv 4 1) (\<lambda>t. P_lookup Pv t 3) = Inr 4 \<and>
     bind (P_lookup Pv 4 3) (\<lambda>t. P_lookup Pv t 1) = Inr 4 \<and>
     bind (P_lookup Pv 4 0) (\<lambda>t. P_lookup Pv t 2) = Inr 4 \<and>
     bind (P_lookup Pv 4 2) (\<lambda>t. P_lookup Pv t 0) = Inr 4"
proof -
  from opposite_moves_invert obtain Pv where
    h: "P_dict = Inr Pv" and
    inv: "\<forall>(s, x, y)\<in>set state_mapping.
        (x \<noteq> 2 \<longrightarrow> bind (P_lookup Pv s 1) (\<lambda>t. P_lookup Pv t 3) = Inr s) \<and>
        (x \<noteq> 0 \<longrightarrow> bind (P_lookup Pv s 3) (\<lambda>t. P_lookup Pv t 1) = Inr s) \<and>
        (y \<noteq> 0 \<longrightarrow> bind (P_lookup Pv s 0) (\<lambda>t. P_lookup Pv t 2) = Inr s) \<and>
        (y \<noteq> 2 \<longrightarrow> bind (P_lookup Pv s 2) (\<lambda>t. P_lookup Pv t 0) = Inr s)"
    by (elim exE conjE)
  have m: "(4, 1, 1) \<in> set state_mapping"
    by (simp add: state_mapping_def)
  have "case (4::int, 1::int, 1::int) of (s, x, y) \<Rightarrow>
        (x \<noteq> 2 \<longrightarrow> bind (P_lookup Pv s 1) (\<lambda>t. P_lookup Pv t 3) = Inr s) \<and>
        (x \<noteq> 0 \<longrightarrow> bind (P_lookup Pv s 3) (\<lambda>t. P_lookup Pv t 1) = Inr s) \<and>
        (y \<noteq> 0 \<longrightarrow> bind (P_lookup Pv s 0) (\<lambda>t. P_lookup Pv t 2) = Inr s) \<and>
        (y \<noteq> 2 \<longrightarrow> bind (P_lookup Pv s 2) (\<lambda>t. P_lookup Pv t 0) = Inr s)"
    using inv m by (rule bspec)
  then have "bind (P_lookup Pv 4 1) (\<lambda>t. P_lookup Pv t 3) = Inr 4 \<and>
     bind (P_lookup Pv 4 3) (\<lambda>t. P_lookup Pv t 1) = Inr 4 \<and>
     bind (P_lookup Pv 4 0) (\<lambda>t. P_lookup Pv t 2) = Inr 4 \<and>
     bind (P_lookup Pv 4 2) (\<lambda>t. P_lookup Pv t 0) = Inr 4"
    by simp
  with h m show ?thesis by blast
qed

section \<open>The demo notebook\<close>

lemma stub_value:
  "create_A_matrix_stub model_labels =
     \<lparr>index = [(''grass_observation'', ''wet''), (''grass_observation'', ''dry''),
               (''weather_observation'', ''clear''), (''weather_observation'', ''rainy''),
               (''weather_observation'', ''cloudy'')],
      columns = [[''rained'', ''on''], [''rained'', ''off''],
                 [''did_not_rain'', ''on''], [''did_not_rain'', ''off'']],
      cells = [[0, 0, 0, 0], [0, 0, 0, 0], [0, 0, 0, 0], [0, 0, 0, 0], [0, 0, 0, 0]]\<rparr>"
  by (simp add: create_A_matrix_stub_def model_labels_def np_zeros2_def np_zeros1_def
      numeral_eq_Suc)

lemma fill_A_stub_value:
  "fill_A_stub v1 v2 v3 v4 v5 v6 [a1, a2, a3] [b1, b2, b3] (create_A_matrix_stub model_labels) =
     Inr \<lparr>index = [(''grass_observation'', ''wet''), (''grass_observation'', ''dry''),
                   (''weather_observation'', ''clear''), (''weather_observation'', ''rainy''),
                   (''weather_observation'', ''cloudy'')],
          columns = [[''rained'', ''on''], [''rained'', ''off''],
                     [''did_not_rain'', ''on''], [''did_not_rain'', ''off'']],
          cells = [[v1, v2, v4, 0], [0, v3, v5, v6],
                   [a1, a1, b1, b1], [a2, a2, b2, b2], [a3, a3, b3, b3]]\<rparr>"
  by (simp add: stub_value fill_A_stub_def loc_set_cell_def loc_set_block_def positions_def
      bind_def set_block_def set_row_def first_level_def np_tile_column_def numeral_2_eq_2)

lemma modality_names: "map fst (observations model_labels) = [''grass_observation'', ''weather_observation'']"
  by (simp add: model_labels_def)

text \<open>
  C5. With \<open>read_from_excel\<close> off, the stub that Option 2 fills out of the empty stub gives,
  in each of its four hidden-state columns (\<open>rained\<close> or \<open>did_not_rain\<close> with \<open>on\<close> or
  \<open>off\<close>) and for each observation modality, entries over that modality's outcomes that
  sum to \<open>1\<close>. The decimal numbers of the notebook are read as exact fractions.
\<close>

theorem option2_columns_sum_to_one:
  "\<exists>A. demo_A_stub False from_excel = Inr A \<and>
     index A = index (create_A_matrix_stub model_labels) \<and>
     columns A = [[''rained'', ''on''], [''rained'', ''off''],
                  [''did_not_rain'', ''on''], [''did_not_rain'', ''off'']] \<and>
     (\<forall>modality\<in>set (map fst (observations model_labels)). \<forall>j\<in>{0..<length (columns A)}.
        modality_column_sum A modality j = 1)"
proof -
  have "demo_A_stub False from_excel =
     Inr \<lparr>index = [(''grass_observation'', ''wet''), (''grass_observation'', ''dry''),
                   (''weather_observation'', ''clear''), (''weather_observation'', ''rainy''),
                   (''weather_observation'', ''cloudy'')],
          columns = [[''rained'', ''on''], [''rained'', ''off''],
                     [''did_not_rain'', ''on''], [''did_not_rain'', ''off'']],
          cells = [[1.0, 0.7, 0.5, 0], [0, 0.3, 0.5, 1.0],
                   [0.1, 0.1, 0.9, 0.9], [0.65, 0.65, 0.05, 0.05], [0.25, 0.25, 0.05, 0.05]]\<rparr>"
    by (simp only: demo_A_stub_def option2_def bind_def fill_A_stub_value if_False not_False_eq_True
        if_True sum.case)
  then show ?thesis
    by (simp add: stub_value modality_names modality_column_sum_def positions_def
        atLeast0_lessThan_Suc)
qed

theorem option2_columns_sum_to_one_witness:
  "\<exists>A. demo_A_stub False (Inl KeyError) = Inr A \<and>
     ''grass_observation'' \<in> set (map fst (observations model_labels)) \<and> 1 < length (columns A) \<and>
     columns A ! 1 = [''rained'', ''off''] \<and>
     modality_column_sum A ''grass_observation'' 1 = 1"
proof -
  from option2_columns_sum_to_one [of "Inl KeyError"] obtain A where
    h: "demo_A_stub False (Inl KeyError) = Inr A" and
    c: "columns A = [[''rained'', ''on''], [''rained'', ''off''],
                  [''did_not_rain'', ''on''], [''did_not_rain'', ''off'']]" and
    s: "\<forall>modality\<in>set (map fst (observations model_labels)). \<forall>j\<in>{0..<length (columns A)}.
        modality_column_sum A modality j = 1"
    by (elim exE conjE)
  have m: "''grass_observation'' \<in> set (map fst (observations model_labels))"
    by (simp add: modality_names)
  from c have l: "1 < length (columns A)" "columns A ! 1 = [''rained'', ''off'']" by simp_all
  then have "1 \<in> {0..<length (columns A)}" by simp
  with s m have "modality_column_sum A ''grass_observation'' 1 = 1" by blast
  with h m l show ?thesis by blast
qed







lemma num_obs_value: "num_obs = [2, 3]"
  by (simp add: num_obs_def get_model_dimensions_from_labels_def model_labels_def)

lemma demo_observation_values:
  "demo_observation [0, 0] = Inr [[1, 0], [1, 0, 0]]"
  "demo_observation [0, 1] = Inr [[1, 0], [0, 1, 0]]"
  "demo_observation [0, 2] = Inr [[1, 0], [0, 0, 1]]"
  "demo_observation [1, 0] = Inr [[0, 1], [1, 0, 0]]"
  "demo_observation [1, 1] = Inr [[0, 1], [0, 1, 0]]"
  "demo_observation [1, 2] = Inr [[0, 1], [0, 0, 1]]"
  by code_simp+

text \<open>
  C10. For observation indices \<open>obs_idx\<close>, one per modality and each within its modality's
  outcome count, the loop succeeds and the observation it builds is one-hot in every
  modality \<open>g\<close>: \<open>observation[g]\<close> has \<open>num_obs[g]\<close> entries, the entry at \<open>obs_idx[g]\<close> is
  \<open>1\<close>, every other entry is \<open>0\<close>, and the entries sum to \<open>1\<close>.
\<close>

theorem observation_one_hot:
  assumes "length obs_idx = length num_obs"
    and "\<forall>g<length num_obs. 0 \<le> obs_idx ! g \<and> obs_idx ! g < int (num_obs ! g)"
  shows "\<exists>observation. demo_observation obs_idx = Inr observation \<and>
           length observation = length num_obs \<and>
           (\<forall>g<length num_obs.
              length (observation ! g) = num_obs ! g \<and>
              observation ! g ! nat (obs_idx ! g) = 1 \<and>
              (\<forall>j<num_obs ! g. j \<noteq> nat (obs_idx ! g) \<longrightarrow> observation ! g ! j = 0) \<and>
              sum_list (observation ! g) = 1)"
proof -
  from assms(1) obtain i0 i1 where e: "obs_idx = [i0, i1]"
    by (auto simp add: num_obs_value numeral_2_eq_2 length_Suc_conv)
  from assms(2) have "0 \<le> i0 \<and> i0 < 2" "0 \<le> i1 \<and> i1 < 3"
    by (simp_all add: e num_obs_value All_less_Suc numeral_2_eq_2)
  then have "i0 \<in> {0, 1}" "i1 \<in> {0, 1, 2}"
    by auto
  then consider "obs_idx = [0, 0]" | "obs_idx = [0, 1]" | "obs_idx = [0, 2]"
    | "obs_idx = [1, 0]" | "obs_idx = [1, 1]" | "obs_idx = [1, 2]"
    using e by auto
  then show ?thesis
    by cases
      (simp_all add: demo_observation_values num_obs_value All_less_Suc numeral_2_eq_2
        numeral_3_eq_3)
qed

theorem observation_one_hot_witness:
  "length [1, 2 :: int] = length num_obs \<and> length num_obs = 2 \<and>
   0 \<le> [1, 2 :: int] ! 0 \<and> [1, 2 :: int] ! 0 < int (num_obs ! 0) \<and>
   0 \<le> [1, 2 :: int] ! 1 \<and> [1, 2 :: int] ! 1 < int (num_obs ! 1) \<and>
   (\<exists>observation. demo_observation [1, 2] = Inr observation \<and>
      length observation = 2 \<and> observation ! 0 ! 1 = 1 \<and> observation ! 0 ! 0 = 0 \<and>
      observation ! 1 ! 2 = 1 \<and> sum_list (observation ! 1) = 1)"
proof -
  have a: "length [1, 2 :: int] = length num_obs"
    by (simp add: num_obs_value)
  have b: "\<forall>g<length num_obs. 0 \<le> [1, 2 :: int] ! g \<and> [1, 2 :: int] ! g < int (num_obs ! g)"
    by (simp add: num_obs_value All_less_Suc numeral_2_eq_2)
  from observation_one_hot [OF a b] obtain observation where
    h: "demo_observation [1, 2] = Inr observation" "length observation = length num_obs" and
    o: "\<forall>g<length num_obs.
              length (observation ! g) = num_obs ! g \<and>
              observation ! g ! nat ([1, 2] ! g) = 1 \<and>
              (\<forall>j<num_obs ! g. j \<noteq> nat ([1, 2] ! g) \<longrightarrow> observation ! g ! j = 0) \<and>
              sum_list (observation ! g) = 1"
    by (elim exE conjE)
  from o have "length observation = 2 \<and> observation ! 0 ! 1 = 1 \<and> observation ! 0 ! 0 = 0 \<and>
      observation ! 1 ! 2 = 1 \<and> sum_list (observation ! 1) = 1"
    using h(2) by (simp add: num_obs_value All_less_Suc numeral_2_eq_2)
  moreover have "length num_obs = 2 \<and>
      0 \<le> [1, 2 :: int] ! 0 \<and> [1, 2 :: int] ! 0 < int (num_obs ! 0) \<and>
      0 \<le> [1, 2 :: int] ! 1 \<and> [1, 2 :: int] ! 1 < int (num_obs ! 1)"
    by (simp add: num_obs_value)
  ultimately show ?thesis using a h(1) by blast
qed

end
